theory Spec2Isabelle
  imports Complex_Main
begin

section \<open>Numbers and errors\<close>

text \<open>
  The program computes on IEEE doubles (numpy \<open>float64\<close>). The embedding is over the
  reals: rounding, overflow and signed zeros are outside it. A \<open>float64\<close> that is not a
  finite number (\<open>nan\<close>, or an infinity produced by a division by zero) is \<open>None\<close>.
\<close>

type_synonym float64 = "real option"

datatype py_error = ZeroDivisionError | ValueError

section \<open>The optimizer of \<open>examples/ai_enhanced_demo.py\<close>\<close>

text \<open>
  \<open>constraints\<close> is the dictionary \<open>{'min_weight': .., 'max_weight': ..}\<close> built by
  \<open>main\<close>; both keys are always present.
\<close>

record constraints =
  min_weight :: real
  max_weight :: real

text \<open>
  \<open>scipy.optimize.minimize\<close> is a library routine. It is a parameter of the model: it
  receives the objective (a closure; its value is \<open>nan\<close> when the covariance matrix holds
  \<open>nan\<close>), the start vector, the box bounds and the list of constraint dictionaries, and
  either raises or returns an \<open>OptimizeResult\<close>, of which the program reads \<open>x\<close> and
  \<open>success\<close>. It does not write to the start vector.
\<close>

record optimize_result =
  x :: "real list"
  success :: bool

record constraint_dict =
  ctype :: string
  cfun :: "real list \<Rightarrow> real"

type_synonym minimize_fn =
  "(real list \<Rightarrow> float64) \<Rightarrow> real list \<Rightarrow> (real \<times> real) list \<Rightarrow> constraint_dict list
     \<Rightarrow> py_error + optimize_result"

text \<open>\<open>np.dot\<close> of two vectors and of a matrix with a vector.\<close>

definition np_dot :: "real list \<Rightarrow> real list \<Rightarrow> real" where
  "np_dot u v = sum_list (map2 (*) u v)"

definition np_dot_mv :: "real list list \<Rightarrow> real list \<Rightarrow> real list" where
  "np_dot_mv m v = map (\<lambda>row. np_dot row v) m"

text \<open>\<open>objective(weights) = np.dot(weights.T, np.dot(cov_matrix, weights))\<close>.\<close>

definition objective :: "real list list option \<Rightarrow> real list \<Rightarrow> float64" where
  "objective cov_matrix weights =
     map_option (\<lambda>m. np_dot weights (np_dot_mv m weights)) cov_matrix"

definition constraints_list :: "constraint_dict list" where
  "constraints_list = [\<lparr>ctype = ''eq'', cfun = (\<lambda>w. sum_list w - 1)\<rparr>]"

text \<open>
  \<open>solve_optimization\<close> is a closure over \<open>constraints\<close> and \<open>n_assets\<close>. The quotient
  \<open>1.0 / n_assets\<close> of \<open>initial_weights\<close> is evaluated before the list is repeated, so it
  raises \<open>ZeroDivisionError\<close> when there is no asset.
\<close>

definition solve_optimization ::
  "minimize_fn \<Rightarrow> constraints \<Rightarrow> nat \<Rightarrow> real list list option \<Rightarrow> py_error + real list" where
  "solve_optimization minimize cs n_assets cov_matrix =
     (let bounds = replicate n_assets (min_weight cs, max_weight cs) in
      if n_assets = 0 then Inl ZeroDivisionError
      else
        let initial_weights = replicate n_assets (1 / real n_assets) in
        case minimize (objective cov_matrix) initial_weights bounds constraints_list of
          Inl e \<Rightarrow> Inl e
        | Inr result \<Rightarrow> Inr (if success result then x result else initial_weights))"

text \<open>A solver run that reports failure, as SLSQP does on an infeasible problem.\<close>

definition failing_minimize :: minimize_fn where
  "failing_minimize f x0 bounds cons = Inr \<lparr>x = x0, success = False\<rparr>"

text \<open>
  An exact solver for two assets, an instance of the solver parameter for closed examples.
  It reads the three coefficients of a quadratic objective off its values at \<open>[1,0]\<close>,
  \<open>[0,1]\<close> and \<open>[1,1]\<close> and minimises it on the part of the line \<open>w\<^sub>0 + w\<^sub>1 = 1\<close> that the
  bounds allow; lemma \<open>minimize_two_optimal\<close> below shows that its result is the constrained
  minimum. SLSQP approaches this point up to its tolerance when it iterates; it stops at
  the start vector when the objective is so flat there that its first step already passes
  the convergence test (covariances of the order of \<open>10\<^sup>-\<^sup>4\<close>). The instance is therefore
  used on covariance matrices of unit scale only.
\<close>

definition minimize_two :: minimize_fn where
  "minimize_two f x0 bounds cons =
     (case (f [1, 0], f [0, 1], f [1, 1], bounds) of
        (Some a, Some b, Some s, [(l0, u0), (l1, u1)]) \<Rightarrow>
          (let c = (s - a - b) / 2;
               d = a + b - 2 * c;
               lo = max l0 (1 - u1);
               hi = min u0 (1 - l1)
           in if hi < lo \<or> d \<le> 0 then Inr \<lparr>x = x0, success = False\<rparr>
              else let t = max lo (min hi ((b - c) / d))
                   in Inr \<lparr>x = [t, 1 - t], success = True\<rparr>)
      | _ \<Rightarrow> Inr \<lparr>x = x0, success = False\<rparr>)"

text \<open>
  The invariant the specification asks of a weight vector: the sum is 1 within \<open>10\<^sup>-\<^sup>6\<close>
  and every weight lies within the position limits.
\<close>

definition weight_invariant :: "constraints \<Rightarrow> real list \<Rightarrow> bool" where
  "weight_invariant cs w \<longleftrightarrow>
     \<bar>sum_list w - 1\<bar> \<le> 1 / 10 ^ 6 \<and> (\<forall>v \<in> set w. min_weight cs \<le> v \<and> v \<le> max_weight cs)"

text \<open>
  What a successful solver run guarantees of its \<open>x\<close>: one entry per bound, every entry
  within its bounds, and every equality constraint met within the solver's accuracy of
  \<open>10\<^sup>-\<^sup>6\<close>.
\<close>

definition meets_constraints :: "real list \<Rightarrow> (real \<times> real) list \<Rightarrow> constraint_dict list \<Rightarrow> bool" where
  "meets_constraints xs bounds cons \<longleftrightarrow>
     length xs = length bounds \<and>
     (\<forall>i < length bounds. fst (bounds ! i) \<le> xs ! i \<and> xs ! i \<le> snd (bounds ! i)) \<and>
     (\<forall>c \<in> set cons. ctype c = ''eq'' \<longrightarrow> \<bar>cfun c xs\<bar> \<le> 1 / 10 ^ 6)"

text \<open>
  scipy validates the bounds before the solver starts and raises \<open>ValueError\<close> when a
  lower bound exceeds its upper bound.
\<close>

definition bounds_checked :: "minimize_fn \<Rightarrow> minimize_fn" where
  "bounds_checked solver f x0 bounds cons =
     (if \<exists>(l, u) \<in> set bounds. u < l then Inl ValueError else solver f x0 bounds cons)"

section \<open>Data frames and the cleaning step of \<open>main\<close>\<close>

text \<open>
  The frame returned by \<open>fetch_stock_returns\<close>: one column per ticker, one row per date
  (dates are numbered), a missing return is \<open>nan\<close>. A frame is rectangular: every row has
  one entry per column.
\<close>

record dataframe =
  columns :: "string list"
  rows :: "(nat \<times> float64 list) list"

text \<open>A frame without missing values, which is what \<open>main\<close> works on after cleaning.\<close>

record returns_frame =
  tickers :: "string list"
  dated_rows :: "(nat \<times> real list) list"

text \<open>
  \<open>returns_data.dropna()\<close> with its defaults (\<open>axis=0, how='any'\<close>) drops every row that
  holds a missing value and keeps every column.
\<close>

definition dropna :: "dataframe \<Rightarrow> returns_frame" where
  "dropna df =
     \<lparr>tickers = columns df,
      dated_rows = List.map_filter (\<lambda>(d, r). map_option (Pair d) (those r)) (rows df)\<rparr>"

text \<open>\<open>valid_tickers = list(returns_data.columns)\<close>.\<close>

definition valid_tickers :: "returns_frame \<Rightarrow> string list" where
  "valid_tickers returns_data = tickers returns_data"

text \<open>The number of missing values in the column of a ticker.\<close>

definition missing_count :: "dataframe \<Rightarrow> nat \<Rightarrow> nat" where
  "missing_count df j = length (filter (\<lambda>(d, r). r ! j = None) (rows df))"

section \<open>Covariance estimation\<close>

text \<open>\<open>a.T\<close> for a two-dimensional array with \<open>ncols\<close> columns.\<close>

definition np_T :: "nat \<Rightarrow> real list list \<Rightarrow> real list list" where
  "np_T ncols a = map (\<lambda>j. map (\<lambda>row. row ! j) a) [0..<ncols]"

text \<open>
  \<open>np.cov(X)\<close> with its defaults (\<open>rowvar=True, bias=False\<close>): every row of \<open>X\<close> is a
  variable with \<open>nobs\<close> observations. numpy subtracts the row averages, multiplies the
  centred array with its transpose and scales by \<open>1 / fact\<close>, \<open>fact = nobs - 1\<close>. With
  \<open>fact \<le> 0\<close> it warns and divides by zero: every entry is \<open>nan\<close>. (numpy squeezes a
  one-by-one result to a scalar holding the same number.)
\<close>

definition np_cov :: "nat \<Rightarrow> real list list \<Rightarrow> real list list option" where
  "np_cov nobs X =
     (if nobs \<le> 1 then None
      else
        let avg = map (\<lambda>r. sum_list r / real nobs) X;
            Xc = map2 (\<lambda>r a. map (\<lambda>v. v - a) r) X avg;
            fact = real nobs - 1
        in Some (map (\<lambda>u. map (\<lambda>v. np_dot u v * (1 / fact)) Xc) Xc))"

text \<open>
  \<open>LedoitWolf().fit(returns_array)\<close> is a library estimator and a parameter of the model;
  the program reads \<open>covariance_\<close> and \<open>shrinkage_\<close> of the fit (here \<open>lw_covariance\<close> and
  \<open>lw_shrinkage\<close>).
\<close>

record lw_fit =
  lw_covariance :: "real list list"
  lw_shrinkage :: real

type_synonym ledoit_wolf_fn = "real list list \<Rightarrow> py_error + lw_fit"

text \<open>
  The estimator as scikit-learn computes it with its defaults, an instance of the
  parameter. \<open>ledoit_wolf_shrinkage\<close> follows the library's function of that name on the
  centred array, given by its columns \<open>cols\<close>: \<open>delta_\<close> and \<open>beta_\<close> of the library are
  \<open>delta_sum\<close> and \<open>beta_sum\<close> here.
\<close>

definition ledoit_wolf_shrinkage :: "nat \<Rightarrow> nat \<Rightarrow> real list list \<Rightarrow> real" where
  "ledoit_wolf_shrinkage n_samples n_features cols =
     (let X2 = map (map (\<lambda>v. v * v)) cols;
          emp_cov_trace = map (\<lambda>c. sum_list c / real n_samples) X2;
          mu = sum_list emp_cov_trace / real n_features;
          delta_sum = sum_list (concat (map (\<lambda>u. map (\<lambda>v. (np_dot u v) ^ 2) cols) cols))
                     / (real n_samples) ^ 2;
          beta_sum = sum_list (concat (map (\<lambda>u. map (\<lambda>v. np_dot u v) X2) X2));
          beta = 1 / (real n_features * real n_samples) * (beta_sum / real n_samples - delta_sum);
          delta = (delta_sum - 2 * mu * sum_list emp_cov_trace + real n_features * mu ^ 2)
                    / real n_features;
          beta = min beta delta
      in if beta = 0 then 0 else beta / delta)"

text \<open>
  \<open>LedoitWolf().fit\<close>: an array without rows or without columns is refused with
  \<open>ValueError\<close>; the data are centred by column; the shrinkage is 0 for a single column;
  the covariance is the empirical covariance (divided by the number of rows) shrunk
  towards \<open>mu\<close> times the identity.
\<close>

definition ledoit_wolf_fit :: ledoit_wolf_fn where
  "ledoit_wolf_fit a =
     (case a of
        [] \<Rightarrow> Inl ValueError
      | r # _ \<Rightarrow>
          (let n_features = length r; n_samples = length a
           in if n_features = 0 then Inl ValueError
              else
                let location = map (\<lambda>c. sum_list c / real n_samples) (np_T n_features a);
                    cols = map2 (\<lambda>c m. map (\<lambda>v. v - m) c) (np_T n_features a) location;
                    shrinkage = (if n_features = 1 then 0
                                 else ledoit_wolf_shrinkage n_samples n_features cols);
                    emp_cov = map (\<lambda>u. map (\<lambda>v. np_dot u v / real n_samples) cols) cols;
                    mu = sum_list (map (\<lambda>i. emp_cov ! i ! i) [0..<n_features]) / real n_features;
                    shrunk_cov =
                      map (\<lambda>i. map (\<lambda>j. (1 - shrinkage) * emp_cov ! i ! j
                                       + (if i = j then shrinkage * mu else 0))
                                [0..<n_features]) [0..<n_features]
                in Inr \<lparr>lw_covariance = shrunk_cov, lw_shrinkage = shrinkage\<rparr>))"

record dual_result =
  sample_weights :: "real list"
  lw_weights :: "real list"
  shrinkage_param :: real

definition sample_cov :: "returns_frame \<Rightarrow> real list list option" where
  "sample_cov returns_data =
     (let returns_array = map snd (dated_rows returns_data);
          n_assets = length (tickers returns_data)
      in np_cov (length returns_array) (np_T n_assets returns_array))"

definition optimize_portfolio_dual_methods ::
  "minimize_fn \<Rightarrow> ledoit_wolf_fn \<Rightarrow> returns_frame \<Rightarrow> constraints \<Rightarrow> py_error + dual_result" where
  "optimize_portfolio_dual_methods minimize ledoit_wolf returns_data cs =
     (let returns_array = map snd (dated_rows returns_data);
          n_assets = length (tickers returns_data)
      in case ledoit_wolf returns_array of
           Inl e \<Rightarrow> Inl e
         | Inr fit \<Rightarrow>
             (case solve_optimization minimize cs n_assets (sample_cov returns_data) of
                Inl e \<Rightarrow> Inl e
              | Inr sw \<Rightarrow>
                  (case solve_optimization minimize cs n_assets (Some (lw_covariance fit)) of
                     Inl e \<Rightarrow> Inl e
                   | Inr lw \<Rightarrow>
                       Inr \<lparr>sample_weights = sw, lw_weights = lw,
                            shrinkage_param = lw_shrinkage fit\<rparr>)))"

text \<open>
  \<open>(returns_data * weights).sum(axis=1)\<close>: the weight vector is broadcast over the rows,
  so the entry of date \<open>d\<close> is the dot product of that date's row with the one vector.
  pandas raises when the vector has not one entry per column.
\<close>

definition portfolio_returns :: "returns_frame \<Rightarrow> real list \<Rightarrow> py_error + (nat \<times> real) list" where
  "portfolio_returns returns_data w =
     (if length w \<noteq> length (tickers returns_data) then Inl ValueError
      else Inr (map (\<lambda>(d, row). (d, np_dot row w)) (dated_rows returns_data)))"

text \<open>
  The part of \<open>main\<close> from the cleaning step to the two realized-return series.
\<close>

record demo_run =
  weights :: dual_result
  sample_returns :: "(nat \<times> real) list"
  lw_returns :: "(nat \<times> real) list"

definition demo_returns ::
  "minimize_fn \<Rightarrow> ledoit_wolf_fn \<Rightarrow> dataframe \<Rightarrow> constraints \<Rightarrow> py_error + demo_run" where
  "demo_returns minimize ledoit_wolf df cs =
     (let returns_data = dropna df
      in case optimize_portfolio_dual_methods minimize ledoit_wolf returns_data cs of
           Inl e \<Rightarrow> Inl e
         | Inr results \<Rightarrow>
             (case portfolio_returns returns_data (sample_weights results) of
                Inl e \<Rightarrow> Inl e
              | Inr sr \<Rightarrow>
                  (case portfolio_returns returns_data (lw_weights results) of
                     Inl e \<Rightarrow> Inl e
                   | Inr lr \<Rightarrow>
                       Inr \<lparr>weights = results, sample_returns = sr, lw_returns = lr\<rparr>)))"

text \<open>
  The weight vectors (sample, Ledoit-Wolf) that \<open>main\<close> applies to realize the portfolio
  returns of date \<open>t\<close>: the entry of date \<open>t\<close> in either return series is the dot product
  of that date's row with the vector of the method.
\<close>

definition weights_applied ::
  "minimize_fn \<Rightarrow> ledoit_wolf_fn \<Rightarrow> dataframe \<Rightarrow> constraints \<Rightarrow> nat
     \<Rightarrow> (real list \<times> real list) option" where
  "weights_applied minimize ledoit_wolf df cs t =
     (case demo_returns minimize ledoit_wolf df cs of
        Inl e \<Rightarrow> None
      | Inr run \<Rightarrow>
          if t \<in> fst ` set (sample_returns run)
          then Some (sample_weights (weights run), lw_weights (weights run))
          else None)"

text \<open>Two frames agree before date \<open>t\<close>: same columns, same rows at every earlier date.\<close>

definition agree_before :: "nat \<Rightarrow> dataframe \<Rightarrow> dataframe \<Rightarrow> bool" where
  "agree_before t df1 df2 \<longleftrightarrow>
     columns df1 = columns df2 \<and>
     filter (\<lambda>(d, r). d < t) (rows df1) = filter (\<lambda>(d, r). d < t) (rows df2)"

section \<open>Performance metrics\<close>

text \<open>
  \<open>Series.mean()\<close> is \<open>nan\<close> on an empty series; \<open>Series.std()\<close> (with \<open>ddof=1\<close>) is
  \<open>nan\<close> on fewer than two values.
\<close>

definition pd_mean :: "real list \<Rightarrow> float64" where
  "pd_mean xs = (if xs = [] then None else Some (sum_list xs / real (length xs)))"

definition pd_std :: "real list \<Rightarrow> float64" where
  "pd_std xs =
     (if length xs < 2 then None
      else
        let m = sum_list xs / real (length xs)
        in Some (sqrt (sum_list (map (\<lambda>v. (v - m) ^ 2) xs) / real (length xs - 1))))"

text \<open>
  Division of two \<open>float64\<close>: no exception; a zero divisor gives \<open>nan\<close> or an infinity.
\<close>

definition np_div :: "float64 \<Rightarrow> float64 \<Rightarrow> float64" where
  "np_div a b =
     (case (a, b) of (Some u, Some v) \<Rightarrow> if v = 0 then None else Some (u / v) | _ \<Rightarrow> None)"

text \<open>
  The Sharpe ratio of \<open>calc_metrics\<close> is a numpy \<open>float64\<close> when the guard holds and the
  Python integer \<open>0\<close> otherwise, and the two divide differently by zero: Python numbers
  raise, numpy numbers do not.
\<close>

datatype pynum = PyInt int | PyFloat real | NpFloat float64

fun num_val :: "pynum \<Rightarrow> float64" where
  "num_val (PyInt i) = Some (real_of_int i)"
| "num_val (PyFloat r) = Some r"
| "num_val (NpFloat f) = f"

fun is_np :: "pynum \<Rightarrow> bool" where
  "is_np (NpFloat f) = True"
| "is_np _ = False"

text \<open>Comparisons with \<open>nan\<close> are false, except \<open>!=\<close>.\<close>

definition py_gt :: "pynum \<Rightarrow> pynum \<Rightarrow> bool" where
  "py_gt a b = (case (num_val a, num_val b) of (Some u, Some v) \<Rightarrow> v < u | _ \<Rightarrow> False)"

definition py_ne :: "pynum \<Rightarrow> pynum \<Rightarrow> bool" where
  "py_ne a b = (case (num_val a, num_val b) of (Some u, Some v) \<Rightarrow> u \<noteq> v | _ \<Rightarrow> True)"

fun py_sub :: "pynum \<Rightarrow> pynum \<Rightarrow> pynum" where
  "py_sub (PyInt i) (PyInt j) = PyInt (i - j)"
| "py_sub (PyInt i) (PyFloat s) = PyFloat (real_of_int i - s)"
| "py_sub (PyFloat r) (PyInt j) = PyFloat (r - real_of_int j)"
| "py_sub (PyFloat r) (PyFloat s) = PyFloat (r - s)"
| "py_sub a b =
     NpFloat (case (num_val a, num_val b) of (Some u, Some v) \<Rightarrow> Some (u - v) | _ \<Rightarrow> None)"

fun py_mul :: "pynum \<Rightarrow> pynum \<Rightarrow> pynum" where
  "py_mul (PyInt i) (PyInt j) = PyInt (i * j)"
| "py_mul (PyInt i) (PyFloat s) = PyFloat (real_of_int i * s)"
| "py_mul (PyFloat r) (PyInt j) = PyFloat (r * real_of_int j)"
| "py_mul (PyFloat r) (PyFloat s) = PyFloat (r * s)"
| "py_mul a b =
     NpFloat (case (num_val a, num_val b) of (Some u, Some v) \<Rightarrow> Some (u * v) | _ \<Rightarrow> None)"

fun py_truediv :: "pynum \<Rightarrow> pynum \<Rightarrow> py_error + pynum" where
  "py_truediv (PyInt i) (PyInt j) =
     (if j = 0 then Inl ZeroDivisionError else Inr (PyFloat (real_of_int i / real_of_int j)))"
| "py_truediv (PyInt i) (PyFloat s) =
     (if s = 0 then Inl ZeroDivisionError else Inr (PyFloat (real_of_int i / s)))"
| "py_truediv (PyFloat r) (PyInt j) =
     (if j = 0 then Inl ZeroDivisionError else Inr (PyFloat (r / real_of_int j)))"
| "py_truediv (PyFloat r) (PyFloat s) =
     (if s = 0 then Inl ZeroDivisionError else Inr (PyFloat (r / s)))"
| "py_truediv a b = Inr (NpFloat (np_div (num_val a) (num_val b)))"

text \<open>\<open>(1 + returns).cumprod()\<close> and \<open>cumulative.expanding().max()\<close>.\<close>

fun cumprod_from :: "real \<Rightarrow> real list \<Rightarrow> real list" where
  "cumprod_from acc [] = []"
| "cumprod_from acc (v # vs) = (acc * v) # cumprod_from (acc * v) vs"

definition cumprod :: "real list \<Rightarrow> real list" where
  "cumprod vs = cumprod_from 1 vs"

fun expanding_max_from :: "real \<Rightarrow> real list \<Rightarrow> real list" where
  "expanding_max_from m [] = []"
| "expanding_max_from m (v # vs) = max m v # expanding_max_from (max m v) vs"

definition expanding_max :: "real list \<Rightarrow> real list" where
  "expanding_max vs = (case vs of [] \<Rightarrow> [] | v # ws \<Rightarrow> v # expanding_max_from v ws)"

text \<open>\<open>Series.min()\<close> skips \<open>nan\<close> and is \<open>nan\<close> when nothing is left.\<close>

definition pd_min :: "float64 list \<Rightarrow> float64" where
  "pd_min fs = (case List.map_filter id fs of [] \<Rightarrow> None | v # vs \<Rightarrow> Some (fold min vs v))"

definition drawdowns :: "real list \<Rightarrow> float64 list" where
  "drawdowns returns =
     (let cumulative = cumprod (map (\<lambda>r. 1 + r) returns)
      in map2 (\<lambda>c m. np_div (Some (c - m)) (Some m)) cumulative (expanding_max cumulative))"

record metrics =
  annual_return :: float64
  annual_volatility :: float64
  sharpe_ratio :: pynum
  max_drawdown :: float64

definition calc_metrics :: "real list \<Rightarrow> metrics" where
  "calc_metrics returns =
     (let annual_ret = map_option (\<lambda>m. m * 12) (pd_mean returns);
          annual_vol = map_option (\<lambda>s. s * sqrt 12) (pd_std returns);
          sharpe = (case annual_vol of
                      Some v \<Rightarrow> if 0 < v then NpFloat (np_div annual_ret annual_vol) else PyInt 0
                    | None \<Rightarrow> PyInt 0);
          max_dd = pd_min (drawdowns returns)
      in \<lparr>annual_return = annual_ret, annual_volatility = annual_vol,
          sharpe_ratio = sharpe, max_drawdown = max_dd\<rparr>)"

text \<open>\<open>'sortino_ratio': sample_metrics['sharpe_ratio'] * 1.1\<close> of \<open>performance_metrics\<close>.\<close>

definition sortino_ratio :: "metrics \<Rightarrow> pynum" where
  "sortino_ratio m = py_mul (sharpe_ratio m) (PyFloat (11 / 10))"

text \<open>The winner determination of \<open>main\<close>: the winner and the improvement in percent.\<close>

datatype winner = LedoitWolf | SampleCovariance

definition winner_determination :: "pynum \<Rightarrow> pynum \<Rightarrow> py_error + winner \<times> pynum" where
  "winner_determination sample_sharpe lw_sharpe =
     (if py_gt lw_sharpe sample_sharpe then
        (case py_truediv (py_sub lw_sharpe sample_sharpe) sample_sharpe of
           Inl e \<Rightarrow> Inl e
         | Inr q \<Rightarrow> Inr (LedoitWolf, py_mul q (PyInt 100)))
      else
        (case py_truediv (py_sub sample_sharpe lw_sharpe) lw_sharpe of
           Inl e \<Rightarrow> Inl e
         | Inr q \<Rightarrow> Inr (SampleCovariance, py_mul q (PyInt 100))))"

text \<open>The winner analysis of \<open>source/run_test.py\<close>, which guards the second division.\<close>

definition winner_analysis :: "pynum \<Rightarrow> pynum \<Rightarrow> py_error + winner \<times> pynum" where
  "winner_analysis sample_sharpe lw_sharpe =
     (if py_gt lw_sharpe sample_sharpe then
        (case py_truediv (py_sub lw_sharpe sample_sharpe) sample_sharpe of
           Inl e \<Rightarrow> Inl e
         | Inr q \<Rightarrow> Inr (LedoitWolf, py_mul q (PyInt 100)))
      else if py_ne lw_sharpe (PyInt 0) then
        (case py_truediv (py_sub sample_sharpe lw_sharpe) lw_sharpe of
           Inl e \<Rightarrow> Inl e
         | Inr q \<Rightarrow> Inr (SampleCovariance, py_mul q (PyInt 100)))
      else Inr (SampleCovariance, PyInt 0))"

section \<open>The formulas of the specification\<close>

text \<open>
  The specification's words for the performance figures, to compare with
  \<open>calc_metrics\<close>: mean and (sample) standard deviation of a series, the deviation of
  fewer than two values taken as \<open>0\<close>;
  Sharpe = (annualized return - risk-free rate) / annualized volatility, \<open>0\<close> if the
  volatility is \<open>0\<close>; Sortino likewise with the deviation of the negative returns only.
\<close>

definition mean_spec :: "real list \<Rightarrow> real" where
  "mean_spec rs = sum_list rs / real (length rs)"

definition std_spec :: "real list \<Rightarrow> real" where
  "std_spec rs =
     (if length rs < 2 then 0
      else sqrt (sum_list (map (\<lambda>v. (v - mean_spec rs) ^ 2) rs) / (real (length rs) - 1)))"

definition sharpe_spec :: "real \<Rightarrow> real list \<Rightarrow> real" where
  "sharpe_spec risk_free_rate rs =
     (let annualized_return = mean_spec rs * 12;
          annualized_volatility = std_spec rs * sqrt 12
      in if annualized_volatility = 0 then 0
         else (annualized_return - risk_free_rate) / annualized_volatility)"

definition sortino_spec :: "real \<Rightarrow> real list \<Rightarrow> real" where
  "sortino_spec risk_free_rate rs =
     (let annualized_return = mean_spec rs * 12;
          downside_deviation = std_spec (filter (\<lambda>r. r < 0) rs) * sqrt 12
      in if downside_deviation = 0 then 0
         else (annualized_return - risk_free_rate) / downside_deviation)"

text \<open>
  The specification's words for the maximum drawdown: the cumulative product of
  \<open>1 + return\<close> up to date \<open>t\<close>, its running maximum up to \<open>t\<close>, and the minimum over
  \<open>t\<close> of (cum - running max) / running max. The quotient is taken over the dates where
  it is defined; with none the minimum is not a number.
\<close>

definition cum_spec :: "real list \<Rightarrow> nat \<Rightarrow> real" where
  "cum_spec rs t = (\<Prod>i\<le>t. 1 + rs ! i)"

definition running_max_spec :: "real list \<Rightarrow> nat \<Rightarrow> real" where
  "running_max_spec rs t = Max (cum_spec rs ` {..t})"

definition drawdown_spec :: "real list \<Rightarrow> nat \<Rightarrow> real" where
  "drawdown_spec rs t = (cum_spec rs t - running_max_spec rs t) / running_max_spec rs t"

definition max_drawdown_spec :: "real list \<Rightarrow> float64" where
  "max_drawdown_spec rs =
     (let D = {t. t < length rs \<and> running_max_spec rs t \<noteq> 0}
      in if D = {} then None else Some (Min (drawdown_spec rs ` D)))"

text \<open>
  The specification's words for the Sample estimator: the unbiased sample covariance of
  the columns \<open>i\<close> and \<open>j\<close> of a \<open>T \<times> N\<close> return matrix, the cross-products of the
  deviations from the column means divided by \<open>T - 1\<close>.
\<close>

definition column_mean :: "real list list \<Rightarrow> nat \<Rightarrow> real" where
  "column_mean R j = (\<Sum>t<length R. R ! t ! j) / real (length R)"

definition unbiased_cov_spec :: "real list list \<Rightarrow> nat \<Rightarrow> nat \<Rightarrow> real" where
  "unbiased_cov_spec R i j =
     (\<Sum>t<length R. (R ! t ! i - column_mean R i) * (R ! t ! j - column_mean R j))
       / (real (length R) - 1)"

section \<open>The coverage filter\<close>

text \<open>
  Modelled from the spec: the coverage parameters of the CoverageFilter (section 4.1).
  The filter belongs to \<open>PortfolioOptimizer\<close> (\<open>portfolio/optimizer.py\<close>), which is not
  among the sources; \<open>run_test.py\<close> and \<open>assignment_default_demo.py\<close> only pass it
  \<open>coverage_params = {'min_observations': 36, 'max_missing_pct': 0.10}\<close>.
\<close>

record coverage_params =
  min_observations :: nat
  max_missing_pct :: real

text \<open>
  Modelled from the spec: the error of the missing CoverageFilter, "fails with
  \<open>InsufficientUniverse\<close>".
\<close>

datatype coverage_error = InsufficientUniverse

text \<open>
  Modelled from the spec: for the missing CoverageFilter, "for each candidate ticker,
  count non-missing observations within the window".
\<close>

definition observation_count :: "dataframe \<Rightarrow> nat \<Rightarrow> nat" where
  "observation_count window j = length (filter (\<lambda>(d, r). r ! j \<noteq> None) (rows window))"

text \<open>
  Modelled from the spec: for the missing CoverageFilter, the missing fraction of a
  ticker, its missing months over the months of the window ("5 of 36 months (13.9%)").
\<close>

definition missing_fraction :: "dataframe \<Rightarrow> nat \<Rightarrow> real" where
  "missing_fraction window j = real (missing_count window j) / real (length (rows window))"

text \<open>
  Modelled from the spec: for the missing CoverageFilter, "eligible iff
  \<open>count \<ge> min_observations\<close> AND \<open>missing_fraction \<le> max_missing_pct\<close>".
\<close>

definition eligible :: "coverage_params \<Rightarrow> dataframe \<Rightarrow> nat \<Rightarrow> bool" where
  "eligible params window j \<longleftrightarrow>
     min_observations params \<le> observation_count window j \<and>
     missing_fraction window j \<le> max_missing_pct params"

text \<open>
  Modelled from the spec: for the missing CoverageFilter, its output, the "ordered set of
  eligible tickers (stable order)".
\<close>

definition eligible_tickers :: "coverage_params \<Rightarrow> dataframe \<Rightarrow> string list" where
  "eligible_tickers params window =
     map (\<lambda>j. columns window ! j) (filter (eligible params window) [0..<length (columns window)])"

text \<open>
  Modelled from the spec: the missing CoverageFilter itself, which "fails with
  \<open>InsufficientUniverse\<close> if the eligible count is below 2 or below what the Sample
  estimator needs to be non-singular (periods \<ge> eligible_count+1)".
\<close>

definition coverage_filter :: "coverage_params \<Rightarrow> dataframe \<Rightarrow> coverage_error + string list" where
  "coverage_filter params window =
     (let ts = eligible_tickers params window
      in if length ts < 2 \<or> length (rows window) < length ts + 1 then Inl InsufficientUniverse
         else Inr ts)"

section \<open>Closed examples\<close>

text \<open>
  A window of 36 months and three tickers in which the first ticker has no return in the
  first five months.
\<close>

definition frame36 :: dataframe where
  "frame36 =
     \<lparr>columns = [''AAPL'', ''MSFT'', ''JPM''],
      rows = map (\<lambda>d. (d, [if d < 5 then None else Some (1/100), Some (2/100), Some (3/100)]))
               [0..<36]\<rparr>"

text \<open>A frame of three months and two tickers with returns of the order of 1%.\<close>

definition frameA :: dataframe where
  "frameA = \<lparr>columns = [''AAPL'', ''MSFT''],
      rows = [(0, [Some (1/100), Some 0]), (1, [Some (-(1/100)), Some 0]),
              (2, [Some 0, Some (3/100)])]\<rparr>"

text \<open>
  Two frames of three months and two tickers that differ in the last month only. The
  returns are of unit scale (1 is 100%), at which SLSQP iterates to the minimiser.
\<close>

definition frameC :: dataframe where
  "frameC = \<lparr>columns = [''AAPL'', ''MSFT''],
      rows = [(0, [Some 1, Some 0]), (1, [Some (-1), Some 0]), (2, [Some 0, Some 3])]\<rparr>"

definition frameD :: dataframe where
  "frameD = \<lparr>columns = [''AAPL'', ''MSFT''],
      rows = [(0, [Some 1, Some 0]), (1, [Some (-1), Some 0]), (2, [Some 0, Some 6])]\<rparr>"

section \<open>The two-asset solver instance\<close>

text \<open>
  On a quadratic objective \<open>minimize_two\<close> returns, when it reports success, a point
  within the bounds whose objective value is minimal among all points \<open>[p, 1 - p]\<close> within
  the bounds: it is the answer an ideal solver gives on two assets.
\<close>

lemma objective_two:
  "objective (Some [[a, c], [c, b]]) [p, q] = Some (a * p * p + 2 * c * p * q + b * q * q)"
  by (simp add: objective_def np_dot_def np_dot_mv_def algebra_simps)

lemma clipped_vertex_minimal:
  fixes d t0 lo hi p t :: real
  assumes "0 < d" and "lo \<le> p" and "p \<le> hi" and "t = max lo (min hi t0)"
  shows "0 \<le> (p - t) * (d * (p + t - 2 * t0))"
proof -
  consider "t0 \<le> lo" | "lo < t0" "t0 < hi" | "lo < t0" "hi \<le> t0" by linarith
  then show ?thesis
  proof cases
    case 1
    with assms have "t = lo" by (simp add: max_def min_def)
    with 1 assms have "0 \<le> p - t" "0 \<le> d * (p + t - 2 * t0)" by auto
    then show ?thesis by (rule mult_nonneg_nonneg)
  next
    case 2
    with assms have "t = t0" by (simp add: max_def min_def)
    then have e: "(p - t) * (d * (p + t - 2 * t0)) = d * ((p - t0) * (p - t0))"
      by (simp add: algebra_simps)
    have "0 \<le> (p - t0) * (p - t0)" by (rule zero_le_square)
    with assms(1) have "0 \<le> d * ((p - t0) * (p - t0))"
      by (simp only: zero_le_mult_iff) simp
    then show ?thesis unfolding e .
  next
    case 3
    with assms have "t = hi" by (auto simp: max_def min_def)
    with 3 assms have "p - t \<le> 0" "d * (p + t - 2 * t0) \<le> 0"
      by (auto simp: mult_le_0_iff)
    then show ?thesis by (rule mult_nonpos_nonpos)
  qed
qed

lemma minimize_two_optimal:
  assumes run: "minimize_two (objective (Some [[a, c], [c, b]])) x0 [(l0, u0), (l1, u1)] cons = Inr r"
    and ok: "success r"
    and feasible: "l0 \<le> p" "p \<le> u0" "l1 \<le> 1 - p" "1 - p \<le> u1"
  shows "\<exists>t v v'. x r = [t, 1 - t] \<and> l0 \<le> t \<and> t \<le> u0 \<and> l1 \<le> 1 - t \<and> 1 - t \<le> u1 \<and>
           objective (Some [[a, c], [c, b]]) (x r) = Some v \<and>
           objective (Some [[a, c], [c, b]]) [p, 1 - p] = Some v' \<and> v \<le> v'"
proof -
  define d where "d = a + b - 2 * c"
  define lo where "lo = max l0 (1 - u1)"
  define hi where "hi = min u0 (1 - l1)"
  define t0 where "t0 = (b - c) / d"
  define t where "t = max lo (min hi t0)"
  from run ok have d: "0 < d" and lohi: "lo \<le> hi" and xr: "x r = [t, 1 - t]"
    by (auto simp: minimize_two_def objective_two Let_def d_def lo_def hi_def t0_def t_def
        split: if_splits)
  from feasible have p: "lo \<le> p" "p \<le> hi" by (auto simp: lo_def hi_def)
  from lohi have tb: "lo \<le> t" "t \<le> hi" by (auto simp: t_def)
  then have bounds: "l0 \<le> t" "t \<le> u0" "l1 \<le> 1 - t" "1 - t \<le> u1"
    by (auto simp: lo_def hi_def)
  have dt0: "d * t0 = b - c" using d by (simp add: t0_def)
  have "(a * p * p + 2 * c * p * (1 - p) + b * (1 - p) * (1 - p))
        - (a * t * t + 2 * c * t * (1 - t) + b * (1 - t) * (1 - t))
      = (p - t) * (d * (p + t) - 2 * (d * t0))"
    unfolding dt0 by (simp add: d_def algebra_simps)
  also have "\<dots> = (p - t) * (d * (p + t - 2 * t0))"
    by (simp add: algebra_simps)
  also have "0 \<le> \<dots>"
    using d p t_def by (rule clipped_vertex_minimal)
  finally have "a * t * t + 2 * c * t * (1 - t) + b * (1 - t) * (1 - t)
      \<le> a * p * p + 2 * c * p * (1 - p) + b * (1 - p) * (1 - p)"
    by simp
  with xr bounds show ?thesis
    by (simp add: objective_two)
qed

section \<open>Fallback of the optimizer\<close>

lemma replicate_2: "replicate 2 v = [v, v]"
  by (simp add: numeral_2_eq_2)

lemma replicate_3: "replicate 3 v = [v, v, v]"
  by (simp add: numeral_3_eq_3)

lemma replicate_4: "replicate 4 v = [v, v, v, v]"
  by (simp add: numeral_eq_Suc)

lemma fallback_invariant:
  assumes "0 < n"
  shows "weight_invariant cs (replicate n (1 / real n))
           \<longleftrightarrow> min_weight cs \<le> 1 / real n \<and> 1 / real n \<le> max_weight cs"
  using assms by (auto simp: weight_invariant_def sum_list_replicate)

text \<open>
  With three assets and a cap of a quarter no vector meets the invariant, so the problem
  handed to the solver is infeasible and a sound solver reports failure.
\<close>

lemma three_assets_quarter_cap_infeasible:
  assumes "length w = 3"
  shows "\<not> weight_invariant \<lparr>min_weight = 0, max_weight = 1/4\<rparr> w"
proof
  assume inv: "weight_invariant \<lparr>min_weight = 0, max_weight = 1/4\<rparr> w"
  from assms obtain a b c where w: "w = [a, b, c]"
    by (metis length_0_conv length_Suc_conv numeral_3_eq_3)
  from inv have s: "\<bar>a + (b + c) - 1\<bar> \<le> 1 / 10 ^ 6"
    and b: "a \<le> 1/4" "b \<le> 1/4" "c \<le> 1/4"
    unfolding w weight_invariant_def by auto
  have "(1 / 10 ^ 6 :: real) \<le> 1 / 8" by simp
  with s have "\<bar>a + (b + c) - 1\<bar> \<le> 1 / 8" by linarith
  with b show False by linarith
qed

text \<open>
  Claim C3, as stated, fails in its last part: \<open>solve_optimization\<close> does abort. The
  call of the solver is not guarded, so the \<open>ValueError\<close> that scipy raises for the
  infeasible constraint set with \<open>min_weight > max_weight\<close> leaves the function, and
  without assets the start vector raises \<open>ZeroDivisionError\<close>.
\<close>

theorem solve_optimization_aborts_counterexample:
  "solve_optimization (bounds_checked minimize_two) \<lparr>min_weight = 1, max_weight = 0\<rparr> 2
      (Some [[1, 0], [0, 3]]) = Inl ValueError \<and>
   solve_optimization minimize_two \<lparr>min_weight = 0, max_weight = 1\<rparr> 0 (Some [])
     = Inl ZeroDivisionError"
  by (simp add: solve_optimization_def bounds_checked_def replicate_2)

text \<open>
  Claim C3, amended. For every covariance matrix over \<open>N \<ge> 1\<close> assets and every
  constraint set, if the solver returns a result that reports non-convergence or
  infeasibility, the optimization returns exactly the vector of \<open>N\<close> entries \<open>1/N\<close>. It
  aborts exactly when \<open>N = 0\<close> or when the call of the solver itself raises.
\<close>

theorem solve_optimization_outcome:
  "(0 < n_assets \<and>
    (\<exists>result. minimize (objective cov_matrix) (replicate n_assets (1 / real n_assets))
        (replicate n_assets (min_weight cs, max_weight cs)) constraints_list = Inr result
      \<and> \<not> success result)
    \<longrightarrow> solve_optimization minimize cs n_assets cov_matrix
          = Inr (replicate n_assets (1 / real n_assets))) \<and>
   ((\<exists>e. solve_optimization minimize cs n_assets cov_matrix = Inl e)
      \<longleftrightarrow> n_assets = 0 \<or>
          (\<exists>e. minimize (objective cov_matrix) (replicate n_assets (1 / real n_assets))
             (replicate n_assets (min_weight cs, max_weight cs)) constraints_list = Inl e))"
  by (auto simp: solve_optimization_def Let_def split: sum.splits)

theorem solve_optimization_outcome_witness:
  "solve_optimization failing_minimize \<lparr>min_weight = 0, max_weight = 1/4\<rparr> 4 None
     = Inr [1/4, 1/4, 1/4, 1/4] \<and>
   (\<exists>e. solve_optimization (bounds_checked minimize_two) \<lparr>min_weight = 1, max_weight = 0\<rparr> 2
      (Some [[1, 0], [0, 3]]) = Inl e)"
  using solve_optimization_outcome [of 4 failing_minimize None "\<lparr>min_weight = 0, max_weight = 1/4\<rparr>"]
    solve_optimization_outcome [of 2 "bounds_checked minimize_two" "Some [[1, 0], [0, 3]]"
      "\<lparr>min_weight = 1, max_weight = 0\<rparr>"]
  by (simp add: failing_minimize_def bounds_checked_def replicate_4 replicate_2)

section \<open>The weight invariant\<close>

lemma meets_constraints_invariant:
  assumes "meets_constraints xs (replicate n (min_weight cs, max_weight cs)) constraints_list"
  shows "weight_invariant cs xs"
proof -
  from assms have len: "length xs = n"
    and b: "\<And>i. i < n \<Longrightarrow> min_weight cs \<le> xs ! i \<and> xs ! i \<le> max_weight cs"
    and s: "\<bar>sum_list xs - 1\<bar> \<le> 1 / 10 ^ 6"
    by (auto simp: meets_constraints_def constraints_list_def)
  have "\<forall>v \<in> set xs. min_weight cs \<le> v \<and> v \<le> max_weight cs"
    using b len by (auto simp: in_set_conv_nth)
  with s show ?thesis by (simp add: weight_invariant_def)
qed

lemma minimize_two_unit:
  "minimize_two (objective (Some [[1, 0], [0, 3]])) [1/2, 1/2] [(0, 1), (0, 1)] constraints_list
     = Inr \<lparr>x = [3/4, 1/4], success = True\<rparr>"
  by (simp add: minimize_two_def objective_def np_dot_def np_dot_mv_def Let_def)

text \<open>
  Claim C2, as stated, fails on the fallback path: with three assets and position limits
  \<open>[0, 1/4]\<close> a failing solver run makes \<open>solve_optimization\<close> return \<open>[1/3, 1/3, 1/3]\<close>,
  whose entries exceed \<open>max_weight\<close>.
\<close>

theorem solve_optimization_invariant_counterexample:
  "solve_optimization failing_minimize \<lparr>min_weight = 0, max_weight = 1/4\<rparr> 3
      (Some [[1, 0, 0], [0, 1, 0], [0, 0, 1]]) = Inr [1/3, 1/3, 1/3]
   \<and> \<not> weight_invariant \<lparr>min_weight = 0, max_weight = 1/4\<rparr> [1/3, 1/3, 1/3]"
proof
  show "solve_optimization failing_minimize \<lparr>min_weight = 0, max_weight = 1/4\<rparr> 3
      (Some [[1, 0, 0], [0, 1, 0], [0, 0, 1]]) = Inr [1/3, 1/3, 1/3]"
    by (simp add: solve_optimization_def failing_minimize_def replicate_3)
  show "\<not> weight_invariant \<lparr>min_weight = 0, max_weight = 1/4\<rparr> [1/3, 1/3, 1/3]"
    by (rule three_assets_quarter_cap_infeasible) simp
qed

text \<open>
  Claim C2, amended. Over \<open>N \<ge> 1\<close> assets, when the solver returns a result: on success
  \<open>solve_optimization\<close> returns the solver's \<open>x\<close> unchanged, and since it hands the solver
  the bounds \<open>(min_weight, max_weight)\<close> for every asset and the equality constraint
  \<open>sum w - 1\<close>, a successful \<open>x\<close> that meets what the solver was given sums to 1 within
  \<open>10\<^sup>-\<^sup>6\<close> and has every weight within the limits; on the fallback path it returns the
  vector of \<open>N\<close> entries \<open>1/N\<close>, which sums to 1 and has every weight within the limits
  exactly when \<open>min_weight \<le> 1/N \<le> max_weight\<close>.
\<close>

theorem solve_optimization_invariant:
  assumes "0 < n_assets"
    and "minimize (objective cov_matrix) (replicate n_assets (1 / real n_assets))
           (replicate n_assets (min_weight cs, max_weight cs)) constraints_list = Inr result"
    and "success result \<longrightarrow>
           meets_constraints (x result) (replicate n_assets (min_weight cs, max_weight cs))
             constraints_list"
  shows "solve_optimization minimize cs n_assets cov_matrix
           = Inr (if success result then x result else replicate n_assets (1 / real n_assets)) \<and>
         (success result \<longrightarrow> weight_invariant cs (x result)) \<and>
         (weight_invariant cs (replicate n_assets (1 / real n_assets))
            \<longleftrightarrow> min_weight cs \<le> 1 / real n_assets \<and> 1 / real n_assets \<le> max_weight cs)"
  using assms
  by (auto simp: solve_optimization_def fallback_invariant dest: meets_constraints_invariant)

theorem solve_optimization_invariant_witness:
  "solve_optimization minimize_two \<lparr>min_weight = 0, max_weight = 1\<rparr> 2 (Some [[1, 0], [0, 3]])
     = Inr [3/4, 1/4] \<and>
   weight_invariant \<lparr>min_weight = 0, max_weight = 1\<rparr> [3/4, 1/4] \<and>
   solve_optimization failing_minimize \<lparr>min_weight = 0, max_weight = 1/4\<rparr> 4 None
     = Inr [1/4, 1/4, 1/4, 1/4] \<and>
   weight_invariant \<lparr>min_weight = 0, max_weight = 1/4\<rparr> [1/4, 1/4, 1/4, 1/4]"
proof -
  have m: "meets_constraints [3/4, 1/4] [(0, 1), (0, 1)] constraints_list"
    by (simp add: meets_constraints_def constraints_list_def less_Suc_eq numeral_2_eq_2
        all_conj_distrib)
  have a: "solve_optimization minimize_two \<lparr>min_weight = 0, max_weight = 1\<rparr> 2
        (Some [[1, 0], [0, 3]]) = Inr [3/4, 1/4]
      \<and> weight_invariant \<lparr>min_weight = 0, max_weight = 1\<rparr> [3/4, 1/4]"
    using solve_optimization_invariant [of 2 minimize_two "Some [[1, 0], [0, 3]]"
        "\<lparr>min_weight = 0, max_weight = 1\<rparr>" "\<lparr>x = [3/4, 1/4], success = True\<rparr>"] m
    by (simp add: replicate_2 minimize_two_unit)
  have b: "solve_optimization failing_minimize \<lparr>min_weight = 0, max_weight = 1/4\<rparr> 4 None
        = Inr [1/4, 1/4, 1/4, 1/4]
      \<and> weight_invariant \<lparr>min_weight = 0, max_weight = 1/4\<rparr> [1/4, 1/4, 1/4, 1/4]"
    using solve_optimization_invariant [of 4 failing_minimize None
        "\<lparr>min_weight = 0, max_weight = 1/4\<rparr>" "\<lparr>x = replicate 4 (1 / real 4), success = False\<rparr>"]
    by (simp add: failing_minimize_def replicate_4)
  from a b show ?thesis by simp
qed

section \<open>The cleaning step and the coverage filter\<close>

lemma those_eq: "those r = (if None \<in> set r then None else Some (map the r))"
  by (induction r) (auto split: option.splits)

lemma dropna_rows:
  "dated_rows (dropna df)
     = map (\<lambda>(d, r). (d, map the r)) (filter (\<lambda>(d, r). None \<notin> set r) (rows df))"
proof -
  have "List.map_filter (\<lambda>(d, r). map_option (Pair d) (those r)) xs
        = map (\<lambda>(d, r). (d, map the r)) (filter (\<lambda>(d, r). None \<notin> set r) xs)"
    for xs :: "(nat \<times> float64 list) list"
    by (induction xs) (auto simp: List.map_filter_simps those_eq)
  then show ?thesis by (simp add: dropna_def)
qed

lemma upt_36:
  "[0..<36] = [0, 1, 2, 3, 4, 5, 6, 7, 8, 9, 10, 11, 12, 13, 14, 15, 16, 17, 18, 19, 20, 21,
     22, 23, 24, 25, 26, 27, 28, 29, 30, 31, 32, 33, 34, 35]"
  by (simp add: upt_rec)

text \<open>
  The demo's own cleaning step applies no coverage filter: it keeps every ticker and
  keeps exactly the dates on which no ticker has a missing return.
\<close>

lemma dropna_keeps_every_ticker:
  "valid_tickers (dropna df) = columns df \<and>
   dated_rows (dropna df)
     = map (\<lambda>(d, r). (d, map the r)) (filter (\<lambda>(d, r). None \<notin> set r) (rows df))"
  by (simp add: dropna_rows valid_tickers_def) (simp add: dropna_def)

lemma upt_3: "[0..<3] = [0, 1, 2]" by (simp add: upt_rec)

lemma frame36_facts:
  "length (rows frame36) = 36" "missing_count frame36 0 = 5"
  "0 < length (columns frame36)" "distinct (columns frame36)"
  by (simp_all add: frame36_def missing_count_def upt_36)

lemma eligible_frame36:
  "eligible_tickers \<lparr>min_observations = 36, max_missing_pct = 1/10\<rparr> frame36 = [''MSFT'', ''JPM'']"
  by (simp add: eligible_tickers_def eligible_def observation_count_def missing_fraction_def
      missing_count_def frame36_def upt_36 upt_3 del: not_None_eq)

text \<open>
  Claim C6. With \<open>min_observations = 36\<close> and \<open>max_missing_pct = 0.10\<close>, a ticker that
  misses 5 of the 36 months of a window (a missing fraction of 5/36, about 13.9%) is not
  eligible and is not among the eligible tickers that the coverage filter returns for
  that window.
\<close>

theorem coverage_filter_excludes:
  assumes "length (rows window) = 36" and "missing_count window j = 5"
    and "j < length (columns window)" and "distinct (columns window)"
  shows "\<not> eligible \<lparr>min_observations = 36, max_missing_pct = 1/10\<rparr> window j \<and>
         columns window ! j
           \<notin> set (eligible_tickers \<lparr>min_observations = 36, max_missing_pct = 1/10\<rparr> window) \<and>
         (\<forall>ts. coverage_filter \<lparr>min_observations = 36, max_missing_pct = 1/10\<rparr> window = Inr ts
            \<longrightarrow> columns window ! j \<notin> set ts)"
proof -
  let ?p = "\<lparr>min_observations = 36, max_missing_pct = 1/10\<rparr>"
  from assms(1,2) have "missing_fraction window j = 5 / 36"
    by (simp add: missing_fraction_def)
  then have ne: "\<not> eligible ?p window j"
    by (simp add: eligible_def)
  have notin: "columns window ! j \<notin> set (eligible_tickers ?p window)"
  proof
    assume "columns window ! j \<in> set (eligible_tickers ?p window)"
    then obtain i where i: "i < length (columns window)" "eligible ?p window i"
      "columns window ! i = columns window ! j"
      by (auto simp: eligible_tickers_def)
    with assms(3,4) have "i = j" by (simp add: nth_eq_iff_index_eq)
    with i(2) ne show False by simp
  qed
  have "\<forall>ts. coverage_filter ?p window = Inr ts \<longrightarrow> columns window ! j \<notin> set ts"
    using notin by (auto simp: coverage_filter_def Let_def split: if_splits)
  with ne notin show ?thesis by blast
qed

theorem coverage_filter_excludes_witness:
  "\<not> eligible \<lparr>min_observations = 36, max_missing_pct = 1/10\<rparr> frame36 0 \<and>
   coverage_filter \<lparr>min_observations = 36, max_missing_pct = 1/10\<rparr> frame36
     = Inr [''MSFT'', ''JPM'']"
proof -
  have "coverage_filter \<lparr>min_observations = 36, max_missing_pct = 1/10\<rparr> frame36
     = Inr [''MSFT'', ''JPM'']"
    unfolding coverage_filter_def Let_def eligible_frame36
    by (simp add: frame36_facts)
  with coverage_filter_excludes [OF frame36_facts] show ?thesis by simp
qed

section \<open>Sharpe and Sortino ratio\<close>

lemma std_spec_nonneg: "0 \<le> std_spec rs"
  by (auto simp: std_spec_def intro!: divide_nonneg_nonneg sum_list_nonneg)

lemma pd_std_spec: "pd_std rs = (if length rs < 2 then None else Some (std_spec rs))"
  by (auto simp: pd_std_def std_spec_def mean_spec_def Let_def of_nat_diff)

lemma pd_mean_spec: "pd_mean rs = (if rs = [] then None else Some (mean_spec rs))"
  by (simp add: pd_mean_def mean_spec_def)

lemma sqrt_hundredth: "sqrt (1 / 10000) = 1 / 100"
  by (rule real_sqrt_unique) (simp_all add: power2_eq_square)

lemma sqrt_tenth: "sqrt (1 / 100) = 1 / 10"
  by (rule real_sqrt_unique) (simp_all add: power2_eq_square)

lemma std_spec_three: "std_spec [1/100, 1/50, 3/100] = 1/100"
  by (simp add: std_spec_def mean_spec_def power2_eq_square sqrt_hundredth)

lemma std_spec_five: "std_spec [-(1/100), -(1/50), -(3/100), 1/20, 21/100] = 1/10"
  by (simp add: std_spec_def mean_spec_def power2_eq_square sqrt_tenth)

lemma std_spec_downside: "std_spec [-(1/100), -(1/50), -(3/100)] = 1/100"
  by (simp add: std_spec_def mean_spec_def power2_eq_square sqrt_hundredth)

text \<open>The Sharpe ratio of \<open>calc_metrics\<close> is the specification's at a risk-free rate of 0.\<close>

lemma sharpe_ratio_value: "num_val (sharpe_ratio (calc_metrics rs)) = Some (sharpe_spec 0 rs)"
proof (cases "length rs < 2")
  case True
  then show ?thesis
    by (simp add: calc_metrics_def pd_std_spec sharpe_spec_def std_spec_def)
next
  case False
  then have ne: "rs \<noteq> []" by auto
  have nn: "0 \<le> std_spec rs" by (rule std_spec_nonneg)
  show ?thesis
  proof (cases "std_spec rs = 0")
    case True
    with False show ?thesis
      by (simp add: calc_metrics_def pd_std_spec sharpe_spec_def)
  next
    case nz: False
    with nn have "0 < std_spec rs" by simp
    then have "0 < std_spec rs * sqrt 12" by simp
    with False ne nz show ?thesis
      by (simp add: calc_metrics_def pd_std_spec pd_mean_spec sharpe_spec_def np_div_def)
  qed
qed

text \<open>
  Claim C4, as stated, fails: \<open>calc_metrics\<close> does not subtract a risk-free rate. For the
  monthly returns 1%, 2%, 3% and the risk-free rate 0.042 of the demo's configuration the
  computed Sharpe ratio differs from (annualized return - risk-free rate) / annualized
  volatility.
\<close>

theorem calc_metrics_sharpe_counterexample:
  "num_val (sharpe_ratio (calc_metrics [1/100, 1/50, 3/100]))
     \<noteq> Some (sharpe_spec (42/1000) [1/100, 1/50, 3/100])"
  by (simp add: sharpe_ratio_value sharpe_spec_def std_spec_three)

text \<open>
  Claim C4, amended. For every series of realized monthly returns, \<open>calc_metrics\<close> reports
  annualized return = mean * 12 and annualized volatility = std * sqrt 12 (both \<open>nan\<close>
  where the mean or the deviation is), and its Sharpe ratio equals annualized return /
  annualized volatility, with no risk-free rate subtracted, and \<open>0\<close> when the volatility is
  0 or not a number.
\<close>

theorem calc_metrics_sharpe:
  "annual_return (calc_metrics rs) = (if rs = [] then None else Some (mean_spec rs * 12)) \<and>
   annual_volatility (calc_metrics rs)
     = (if length rs < 2 then None else Some (std_spec rs * sqrt 12)) \<and>
   num_val (sharpe_ratio (calc_metrics rs))
     = Some (if length rs < 2 \<or> std_spec rs * sqrt 12 = 0 then 0
             else mean_spec rs * 12 / (std_spec rs * sqrt 12))"
proof -
  have ret: "annual_return (calc_metrics rs)
      = (if rs = [] then None else Some (mean_spec rs * 12))"
    by (simp add: calc_metrics_def pd_mean_spec Let_def)
  have vol: "annual_volatility (calc_metrics rs)
      = (if length rs < 2 then None else Some (std_spec rs * sqrt 12))"
    by (simp add: calc_metrics_def pd_std_spec Let_def)
  have "num_val (sharpe_ratio (calc_metrics rs))
     = Some (if length rs < 2 \<or> std_spec rs * sqrt 12 = 0 then 0
             else mean_spec rs * 12 / (std_spec rs * sqrt 12))"
    unfolding sharpe_ratio_value by (simp add: sharpe_spec_def std_spec_def)
  with ret vol show ?thesis by (intro conjI)
qed

text \<open>The reported Sortino ratio is the Sharpe ratio times 1.1.\<close>

lemma sortino_ratio_value:
  "num_val (sortino_ratio (calc_metrics rs)) = Some (sharpe_spec 0 rs * (11/10))"
proof -
  have "sharpe_ratio (calc_metrics rs) = PyInt 0
          \<or> (\<exists>v. sharpe_ratio (calc_metrics rs) = NpFloat (Some v))"
    by (auto simp: calc_metrics_def pd_std_spec pd_mean_spec np_div_def Let_def
             split: option.splits)
  with sharpe_ratio_value [of rs] show ?thesis
    by (auto simp: sortino_ratio_def)
qed

text \<open>
  Claim C5, as stated, fails: the reported Sortino ratio uses no downside deviation. For
  the monthly returns -1%, -2%, -3%, 5%, 21% it differs from the ratio with the deviation
  of the negative returns in the denominator, at a risk-free rate of 0 and of 0.042.
\<close>

theorem sortino_ratio_counterexample:
  "num_val (sortino_ratio (calc_metrics [-(1/100), -(1/50), -(3/100), 1/20, 21/100]))
     \<noteq> Some (sortino_spec 0 [-(1/100), -(1/50), -(3/100), 1/20, 21/100]) \<and>
   num_val (sortino_ratio (calc_metrics [-(1/100), -(1/50), -(3/100), 1/20, 21/100]))
     \<noteq> Some (sortino_spec (42/1000) [-(1/100), -(1/50), -(3/100), 1/20, 21/100])"
  by (simp add: sortino_ratio_value sharpe_spec_def sortino_spec_def std_spec_five
      std_spec_downside)
    (simp add: mean_spec_def)

text \<open>
  Claim C5, amended. For every series of realized monthly returns the reported Sortino
  ratio is 1.1 times the Sharpe ratio of \<open>calc_metrics\<close>, that is 1.1 * annualized return /
  annualized volatility (and 0 when the volatility is 0 or not a number); no downside
  deviation enters it.
\<close>

theorem sortino_ratio_is_scaled_sharpe:
  "num_val (sortino_ratio (calc_metrics rs))
     = Some ((if length rs < 2 \<or> std_spec rs * sqrt 12 = 0 then 0
              else mean_spec rs * 12 / (std_spec rs * sqrt 12)) * (11/10))"
  unfolding sortino_ratio_value by (simp add: sharpe_spec_def std_spec_def)

section \<open>Winner determination\<close>

lemma constant_series_sharpe: "sharpe_ratio (calc_metrics [1/100, 1/100]) = PyInt 0"
  by (simp add: calc_metrics_def pd_std_def)

text \<open>
  Claim C10. When the Ledoit-Wolf Sharpe ratio is 0 and not greater than the sample
  Sharpe ratio, the winner determination of \<open>main\<close> takes the second branch and divides by
  that zero unguarded: the division raises \<open>ZeroDivisionError\<close> when both ratios are Python
  numbers (the guard value \<open>0\<close> of \<open>calc_metrics\<close>) and gives a non-finite numpy value
  otherwise. On the same input the winner analysis of \<open>run_test.py\<close> returns an
  improvement of 0.
\<close>

theorem winner_determination_divides_by_zero:
  assumes "num_val lw_sharpe = Some 0" and "\<not> py_gt lw_sharpe sample_sharpe"
  shows "winner_determination sample_sharpe lw_sharpe
           = (if is_np sample_sharpe \<or> is_np lw_sharpe
              then Inr (SampleCovariance, NpFloat None) else Inl ZeroDivisionError)
         \<and> winner_analysis sample_sharpe lw_sharpe = Inr (SampleCovariance, PyInt 0)"
  using assms
  by (cases sample_sharpe; cases lw_sharpe)
     (auto simp: winner_determination_def winner_analysis_def py_gt_def py_ne_def np_div_def
           split: option.splits)

text \<open>
  The error branch is reached from \<open>calc_metrics\<close>: two constant return series have
  volatility 0, hence the Sharpe ratio \<open>0\<close> of the guard.
\<close>

theorem winner_determination_divides_by_zero_witness:
  "num_val (sharpe_ratio (calc_metrics [1/100, 1/100])) = Some 0 \<and>
   \<not> py_gt (sharpe_ratio (calc_metrics [1/100, 1/100]))
        (sharpe_ratio (calc_metrics [1/100, 1/100])) \<and>
   winner_determination (sharpe_ratio (calc_metrics [1/100, 1/100]))
      (sharpe_ratio (calc_metrics [1/100, 1/100])) = Inl ZeroDivisionError \<and>
   winner_analysis (sharpe_ratio (calc_metrics [1/100, 1/100]))
      (sharpe_ratio (calc_metrics [1/100, 1/100])) = Inr (SampleCovariance, PyInt 0)"
  using winner_determination_divides_by_zero
    [of "sharpe_ratio (calc_metrics [1/100, 1/100])" "sharpe_ratio (calc_metrics [1/100, 1/100])"]
  by (simp add: constant_series_sharpe py_gt_def)

section \<open>Maximum drawdown\<close>

lemma length_cumprod_from [simp]: "length (cumprod_from a vs) = length vs"
  by (induction vs arbitrary: a) auto

lemma nth_cumprod_from:
  "t < length vs \<Longrightarrow> cumprod_from a vs ! t = a * (\<Prod>i\<le>t. vs ! i)"
proof (induction vs arbitrary: a t)
  case Nil
  then show ?case by simp
next
  case (Cons v vs)
  show ?case
  proof (cases t)
    case 0
    then show ?thesis by simp
  next
    case (Suc k)
    with Cons.prems have "k < length vs" by simp
    then have "cumprod_from (a * v) vs ! k = a * v * (\<Prod>i\<le>k. vs ! i)"
      by (rule Cons.IH)
    moreover have "(\<Prod>i\<le>Suc k. (v # vs) ! i) = v * (\<Prod>i\<le>k. vs ! i)"
      by (simp add: prod.atMost_Suc_shift del: prod.atMost_Suc)
    ultimately show ?thesis using Suc by (simp add: mult.assoc)
  qed
qed

lemma length_expanding_max_from [simp]: "length (expanding_max_from m vs) = length vs"
  by (induction vs arbitrary: m) auto

lemma image_nth_Cons_atMost_Suc:
  "(!) (v # vs) ` {..Suc k} = insert v ((!) vs ` {..k})"
  by (auto simp: atMost_Suc_eq_insert_0 image_image)

lemma nth_expanding_max_from:
  "t < length vs \<Longrightarrow> expanding_max_from m vs ! t = max m (Max ((!) vs ` {..t}))"
proof (induction vs arbitrary: m t)
  case Nil
  then show ?case by simp
next
  case (Cons v vs)
  show ?case
  proof (cases t)
    case 0
    then show ?thesis by simp
  next
    case (Suc k)
    with Cons.prems have k: "k < length vs" by simp
    have "expanding_max_from (max m v) vs ! k = max (max m v) (Max ((!) vs ` {..k}))"
      using k by (rule Cons.IH)
    moreover have "Max ((!) (v # vs) ` {..Suc k}) = max v (Max ((!) vs ` {..k}))"
      unfolding image_nth_Cons_atMost_Suc by simp
    ultimately show ?thesis using Suc by (simp add: max.assoc)
  qed
qed

lemma length_expanding_max [simp]: "length (expanding_max vs) = length vs"
  by (simp add: expanding_max_def split: list.splits)

lemma nth_expanding_max:
  assumes "t < length vs"
  shows "expanding_max vs ! t = Max ((!) vs ` {..t})"
proof (cases vs)
  case Nil
  with assms show ?thesis by simp
next
  case (Cons v ws)
  show ?thesis
  proof (cases t)
    case 0
    with Cons show ?thesis by (simp add: expanding_max_def)
  next
    case (Suc k)
    with assms Cons have k: "k < length ws" by simp
    have "Max ((!) (v # ws) ` {..Suc k}) = max v (Max ((!) ws ` {..k}))"
      unfolding image_nth_Cons_atMost_Suc by simp
    with Cons Suc k show ?thesis
      by (simp add: expanding_max_def nth_expanding_max_from)
  qed
qed


lemma nth_cumulative:
  assumes "t < length rs"
  shows "cumprod (map (\<lambda>r. 1 + r) rs) ! t = cum_spec rs t"
proof -
  have "(\<Prod>i\<le>t. map (\<lambda>r. 1 + r) rs ! i) = (\<Prod>i\<le>t. 1 + rs ! i)"
    using assms by (intro prod.cong) auto
  with assms show ?thesis
    by (simp add: cumprod_def cum_spec_def nth_cumprod_from)
qed

lemma nth_running_max:
  assumes "t < length rs"
  shows "expanding_max (cumprod (map (\<lambda>r. 1 + r) rs)) ! t = running_max_spec rs t"
proof -
  have "(!) (cumprod (map (\<lambda>r. 1 + r) rs)) ` {..t} = cum_spec rs ` {..t}"
    using assms by (intro image_cong) (auto simp: nth_cumulative)
  with assms show ?thesis
    by (simp add: nth_expanding_max cumprod_def running_max_spec_def)
qed

lemma drawdowns_eq:
  "drawdowns rs = map (\<lambda>t. if running_max_spec rs t = 0 then None
                            else Some (drawdown_spec rs t)) [0..<length rs]"
proof -
  define cu where "cu = cumprod (map (\<lambda>r. 1 + r) rs)"
  have len: "length cu = length rs"
    by (simp add: cu_def cumprod_def)
  have dd: "drawdowns rs = map2 (\<lambda>c m. np_div (Some (c - m)) (Some m)) cu (expanding_max cu)"
    by (simp add: drawdowns_def Let_def cu_def)
  show ?thesis
  proof (rule nth_equalityI)
    show "length (drawdowns rs) = length (map (\<lambda>t. if running_max_spec rs t = 0 then None
                            else Some (drawdown_spec rs t)) [0..<length rs])"
      by (simp add: dd len)
  next
    fix t assume "t < length (drawdowns rs)"
    then have t: "t < length rs" by (simp add: dd len)
    have c: "cu ! t = cum_spec rs t"
      unfolding cu_def using t by (rule nth_cumulative)
    have m: "expanding_max cu ! t = running_max_spec rs t"
      unfolding cu_def using t by (rule nth_running_max)
    from t show "drawdowns rs ! t = map (\<lambda>t. if running_max_spec rs t = 0 then None
                            else Some (drawdown_spec rs t)) [0..<length rs] ! t"
      by (simp add: dd len c m np_div_def drawdown_spec_def)
  qed
qed

lemma pd_min_eq:
  "pd_min fs = (if {v. Some v \<in> set fs} = {} then None else Some (Min {v. Some v \<in> set fs}))"
proof -
  have s: "set (List.map_filter id fs) = {v. Some v \<in> set fs}"
    by (induction fs) (auto split: option.splits)
  show ?thesis
  proof (cases "List.map_filter id fs")
    case Nil
    with s show ?thesis by (simp add: pd_min_def)
  next
    case (Cons v vs)
    with s have "{v. Some v \<in> set fs} = set (v # vs)" by simp
    moreover have "fold min vs v = Min (set (v # vs))"
      by (simp only: Min.set_eq_fold)
    ultimately show ?thesis using Cons by (simp add: pd_min_def)
  qed
qed

lemma pd_min_drawdowns: "pd_min (drawdowns rs) = max_drawdown_spec rs"
proof -
  have "{v. Some v \<in> set (drawdowns rs)}
      = drawdown_spec rs ` {t. t < length rs \<and> running_max_spec rs t \<noteq> 0}"
    by (auto simp: drawdowns_eq image_iff)
  then show ?thesis
    by (simp add: pd_min_eq max_drawdown_spec_def)
qed

text \<open>
  A quotient of the drawdown series is undefined only as \<open>0/0\<close>, which is \<open>nan\<close> and is
  skipped by \<open>min\<close>: where the running maximum is 0, so is the cumulative product.
\<close>

lemma running_max_zero:
  assumes "t < length rs" and "running_max_spec rs t = 0"
  shows "cum_spec rs t = 0"
proof -
  have "Max (cum_spec rs ` {..t}) \<in> cum_spec rs ` {..t}"
    by (rule Max_in) auto
  with assms(2) have "0 \<in> cum_spec rs ` {..t}"
    by (simp add: running_max_spec_def)
  then obtain k where k: "k \<le> t" "cum_spec rs k = 0"
    by auto
  from k(2) obtain i where "i \<le> k" "1 + rs ! i = 0"
    by (auto simp: cum_spec_def)
  with k(1) have "\<exists>j\<in>{..t}. 1 + rs ! j = 0"
    by (intro bexI [of _ i]) auto
  then show ?thesis
    by (simp add: cum_spec_def)
qed

lemma max_drawdown_example: "max_drawdown (calc_metrics [1/10, -(1/5)]) = Some (-(1/5))"
  by (simp add: calc_metrics_def drawdowns_def cumprod_def expanding_max_def pd_min_def
      np_div_def Let_def)

text \<open>
  Claim C7. For every series of realized returns the maximum drawdown reported by
  \<open>calc_metrics\<close> is the minimum over \<open>t\<close> of (cum at t - running max at t) / running max at t, where
  cum is the cumulative product of \<open>1 + return\<close> and the running maximum is taken up to
  \<open>t\<close>; dates with a running maximum of 0 are skipped and the result is \<open>nan\<close> when no
  date is left (in particular on the empty series).
\<close>

theorem calc_metrics_max_drawdown:
  "max_drawdown (calc_metrics rs) = max_drawdown_spec rs"
  by (simp add: calc_metrics_def Let_def pd_min_drawdowns)

theorem calc_metrics_max_drawdown_witness:
  "max_drawdown_spec [1/10, -(1/5)] = Some (-(1/5))"
  using calc_metrics_max_drawdown [of "[1/10, -(1/5)]"]
  by (simp add: max_drawdown_example)

text \<open>
  Claim C9. For every non-empty series of realized returns in which no prefix product of
  \<open>1 + return\<close> is zero, \<open>calc_metrics\<close> reports a maximum drawdown that is a number and
  is at most 0.
\<close>

theorem max_drawdown_nonpositive:
  assumes "rs \<noteq> []" and "\<forall>t < length rs. cum_spec rs t \<noteq> 0"
  shows "\<exists>m. max_drawdown (calc_metrics rs) = Some m \<and> m \<le> 0"
proof -
  let ?D = "{t. t < length rs \<and> running_max_spec rs t \<noteq> 0}"
  from assms have c0: "cum_spec rs 0 \<noteq> 0" by auto
  have r0: "running_max_spec rs 0 = cum_spec rs 0" by (simp add: running_max_spec_def)
  from assms(1) c0 r0 have in0: "0 \<in> ?D" by simp
  have d0: "drawdown_spec rs 0 = 0" by (simp add: drawdown_spec_def r0)
  have "finite ?D" by simp
  then have "Min (drawdown_spec rs ` ?D) \<le> drawdown_spec rs 0"
    using in0 by (intro Min_le) auto
  with d0 in0 show ?thesis
    by (auto simp: calc_metrics_def Let_def pd_min_drawdowns max_drawdown_spec_def)
qed

theorem max_drawdown_nonpositive_witness:
  "cum_spec [1/10, -(1/5)] 0 \<noteq> 0 \<and> cum_spec [1/10, -(1/5)] 1 \<noteq> 0 \<and>
   (\<exists>m. max_drawdown (calc_metrics [1/10, -(1/5)]) = Some m \<and> m \<le> 0)"
proof -
  have h: "\<forall>t < length [1/10, -(1/5) :: real]. cum_spec [1/10, -(1/5)] t \<noteq> 0"
    by (auto simp: cum_spec_def less_Suc_eq le_Suc_eq)
  with max_drawdown_nonpositive [of "[1/10, -(1/5)]"] show ?thesis
    by (simp add: cum_spec_def)
qed

section \<open>The Sample estimator\<close>

lemma sum_list_map_nth: "sum_list (map f xs) = (\<Sum>t<length xs. f (xs ! t))"
proof -
  have "sum_list (map f xs) = (\<Sum>t = 0..<length (map f xs). map f xs ! t)"
    by (rule sum_list_sum_nth)
  also have "\<dots> = (\<Sum>t<length xs. f (xs ! t))"
    by (simp add: atLeast0LessThan)
  finally show ?thesis .
qed

lemma np_dot_sum:
  assumes "length u = n" and "length v = n"
  shows "np_dot u v = (\<Sum>t<n. u ! t * v ! t)"
proof -
  have "np_dot u v = (\<Sum>t<length (zip u v). (\<lambda>(a, b). a * b) (zip u v ! t))"
    unfolding np_dot_def by (rule sum_list_map_nth)
  also have "\<dots> = (\<Sum>t<n. u ! t * v ! t)"
    using assms by (intro sum.cong) auto
  finally show ?thesis .
qed

lemma np_cov_np_T:
  assumes "2 \<le> length R"
  shows "np_cov (length R) (np_T n R)
     = Some (map (\<lambda>i. map (\<lambda>j. unbiased_cov_spec R i j) [0..<n]) [0..<n])"
proof -
  let ?T = "length R"
  let ?X = "np_T n R"
  define avg where "avg = map (\<lambda>r. sum_list r / real ?T) ?X"
  define Xc where "Xc = map2 (\<lambda>r a. map (\<lambda>v. v - a) r) ?X avg"
  have lenX: "length ?X = n" by (simp add: np_T_def)
  have avg_nth: "avg ! i = column_mean R i" if "i < n" for i
    using that by (simp add: avg_def np_T_def sum_list_map_nth column_mean_def)
  have lenXc: "length Xc = n" by (simp add: Xc_def avg_def np_T_def)
  have X_nth: "?X ! i = map (\<lambda>row. row ! i) R" if "i < n" for i
    using that by (simp add: np_T_def)
  have lenavg: "length avg = n" by (simp add: avg_def lenX)
  have Xc_nth: "Xc ! i = map (\<lambda>row. row ! i - column_mean R i) R" if "i < n" for i
  proof -
    have "Xc ! i = map (\<lambda>v. v - avg ! i) (?X ! i)"
      using that by (simp add: Xc_def lenX lenavg)
    with that show ?thesis by (simp add: X_nth avg_nth)
  qed
  have dot: "np_dot (Xc ! i) (Xc ! j)
      = (\<Sum>t<?T. (R ! t ! i - column_mean R i) * (R ! t ! j - column_mean R j))"
    if "i < n" "j < n" for i j
  proof -
    have "np_dot (Xc ! i) (Xc ! j) = (\<Sum>t<?T. (Xc ! i) ! t * (Xc ! j) ! t)"
      using that by (intro np_dot_sum) (simp_all add: Xc_nth)
    also have "\<dots> = (\<Sum>t<?T. (R ! t ! i - column_mean R i) * (R ! t ! j - column_mean R j))"
      using that by (intro sum.cong) (auto simp: Xc_nth)
    finally show ?thesis .
  qed
  have "map (\<lambda>u. map (\<lambda>v. np_dot u v * (1 / (real ?T - 1))) Xc) Xc
      = map (\<lambda>i. map (\<lambda>j. unbiased_cov_spec R i j) [0..<n]) [0..<n]"
  proof (rule nth_equalityI)
    show "length (map (\<lambda>u. map (\<lambda>v. np_dot u v * (1 / (real ?T - 1))) Xc) Xc)
        = length (map (\<lambda>i. map (\<lambda>j. unbiased_cov_spec R i j) [0..<n]) [0..<n])"
      by (simp add: lenXc)
  next
    fix i assume "i < length (map (\<lambda>u. map (\<lambda>v. np_dot u v * (1 / (real ?T - 1))) Xc) Xc)"
    then have i: "i < n" by (simp add: lenXc)
    have "map (\<lambda>v. np_dot (Xc ! i) v * (1 / (real ?T - 1))) Xc
        = map (\<lambda>j. unbiased_cov_spec R i j) [0..<n]"
    proof (rule nth_equalityI)
      show "length (map (\<lambda>v. np_dot (Xc ! i) v * (1 / (real ?T - 1))) Xc)
          = length (map (\<lambda>j. unbiased_cov_spec R i j) [0..<n])"
        by (simp add: lenXc)
    next
      fix j assume "j < length (map (\<lambda>v. np_dot (Xc ! i) v * (1 / (real ?T - 1))) Xc)"
      then have j: "j < n" by (simp add: lenXc)
      with i show "map (\<lambda>v. np_dot (Xc ! i) v * (1 / (real ?T - 1))) Xc ! j
          = map (\<lambda>j. unbiased_cov_spec R i j) [0..<n] ! j"
        by (simp add: lenXc dot unbiased_cov_spec_def)
    qed
    with i show "map (\<lambda>u. map (\<lambda>v. np_dot u v * (1 / (real ?T - 1))) Xc) Xc ! i
        = map (\<lambda>i. map (\<lambda>j. unbiased_cov_spec R i j) [0..<n]) [0..<n] ! i"
      by (simp add: lenXc)
  qed
  with assms show ?thesis
    by (simp add: np_cov_def Let_def Xc_def avg_def)
qed

lemma unbiased_cov_spec_sym: "unbiased_cov_spec R i j = unbiased_cov_spec R j i"
  by (simp add: unbiased_cov_spec_def mult.commute)

lemma dropna_frameA: "dropna frameA = \<lparr>tickers = [''AAPL'', ''MSFT''],
     dated_rows = [(0, [1/100, 0]), (1, [-(1/100), 0]), (2, [0, 3/100])]\<rparr>"
  by (simp add: dropna_def frameA_def)

lemma upt_2: "[0..<2] = [0, 1]" by (simp add: upt_rec)

lemma sample_cov_frameA: "sample_cov (dropna frameA) = Some [[1/10000, 0], [0, 3/10000]]"
  by (simp add: sample_cov_def dropna_frameA np_cov_def np_T_def np_dot_def upt_2 Let_def)

text \<open>
  Claim C8. For every \<open>T \<times> N\<close> return matrix with \<open>T \<ge> 2\<close> the Sample estimator
  \<open>np.cov(returns_array.T)\<close> returns the \<open>N \<times> N\<close> matrix whose entry \<open>(i, j)\<close> is the
  unbiased sample covariance of the columns \<open>i\<close> and \<open>j\<close>, and this matrix is symmetric.
\<close>

theorem sample_cov_unbiased:
  assumes "2 \<le> length (dated_rows returns_data)"
    and "\<forall>row \<in> set (map snd (dated_rows returns_data)). length row = length (tickers returns_data)"
  shows "\<exists>C. sample_cov returns_data = Some C \<and> length C = length (tickers returns_data) \<and>
           (\<forall>i < length (tickers returns_data).
              length (C ! i) = length (tickers returns_data) \<and>
              (\<forall>j < length (tickers returns_data).
                 C ! i ! j = unbiased_cov_spec (map snd (dated_rows returns_data)) i j \<and>
                 C ! i ! j = C ! j ! i))"
proof -
  let ?R = "map snd (dated_rows returns_data)"
  let ?n = "length (tickers returns_data)"
  from assms(1) have "2 \<le> length ?R" by simp
  then have "np_cov (length ?R) (np_T ?n ?R)
      = Some (map (\<lambda>i. map (\<lambda>j. unbiased_cov_spec ?R i j) [0..<?n]) [0..<?n])"
    by (rule np_cov_np_T)
  then have "sample_cov returns_data
      = Some (map (\<lambda>i. map (\<lambda>j. unbiased_cov_spec ?R i j) [0..<?n]) [0..<?n])"
    by (simp add: sample_cov_def Let_def)
  then show ?thesis
    by (simp add: unbiased_cov_spec_sym)
qed

theorem sample_cov_unbiased_witness:
  "unbiased_cov_spec (map snd (dated_rows (dropna frameA))) 0 0 = 1/10000 \<and>
   unbiased_cov_spec (map snd (dated_rows (dropna frameA))) 0 1 = 0 \<and>
   unbiased_cov_spec (map snd (dated_rows (dropna frameA))) 1 1 = 3/10000"
proof -
  let ?R = "map snd (dated_rows (dropna frameA))"
  have h1: "2 \<le> length (dated_rows (dropna frameA))"
    by (simp add: dropna_frameA)
  have h2: "\<forall>row \<in> set (map snd (dated_rows (dropna frameA))).
      length row = length (tickers (dropna frameA))"
    by (simp add: dropna_frameA)
  have n: "length (tickers (dropna frameA)) = 2"
    by (simp add: dropna_frameA)
  from sample_cov_unbiased [OF h1 h2] obtain C where
    C: "sample_cov (dropna frameA) = Some C" and
    e: "\<And>i j. i < 2 \<Longrightarrow> j < 2 \<Longrightarrow> C ! i ! j = unbiased_cov_spec ?R i j"
    unfolding n by blast
  from C have Cv: "C = [[1/10000, 0], [0, 3/10000]]"
    by (simp add: sample_cov_frameA)
  have "C ! 0 ! 0 = unbiased_cov_spec ?R 0 0" "C ! 0 ! 1 = unbiased_cov_spec ?R 0 1"
    "C ! 1 ! 1 = unbiased_cov_spec ?R 1 1"
    by (simp_all add: e)
  then show ?thesis unfolding Cv by simp
qed

section \<open>Look-ahead\<close>

lemma dropna_frameC: "dropna frameC = \<lparr>tickers = [''AAPL'', ''MSFT''],
     dated_rows = [(0, [1, 0]), (1, [-1, 0]), (2, [0, 3])]\<rparr>"
  by (simp add: dropna_def frameC_def)

lemma dropna_frameD: "dropna frameD = \<lparr>tickers = [''AAPL'', ''MSFT''],
     dated_rows = [(0, [1, 0]), (1, [-1, 0]), (2, [0, 6])]\<rparr>"
  by (simp add: dropna_def frameD_def)

lemma sample_cov_frameC: "sample_cov (dropna frameC) = Some [[1, 0], [0, 3]]"
  by (simp add: sample_cov_def dropna_frameC np_cov_def np_T_def np_dot_def upt_2 Let_def)

lemma sample_cov_frameD: "sample_cov (dropna frameD) = Some [[1, 0], [0, 12]]"
  by (simp add: sample_cov_def dropna_frameD np_cov_def np_T_def np_dot_def upt_2 Let_def)

lemma ledoit_wolf_frameC:
  "ledoit_wolf_fit [[1, 0], [-1, 0], [0, 3]]
     = Inr \<lparr>lw_covariance = [[4/3, 0], [0, 4/3]], lw_shrinkage = 1\<rparr>"
  by (simp add: ledoit_wolf_fit_def ledoit_wolf_shrinkage_def np_T_def np_dot_def upt_2 Let_def
      power2_eq_square)

lemma ledoit_wolf_frameD:
  "ledoit_wolf_fit [[1, 0], [-1, 0], [0, 6]]
     = Inr \<lparr>lw_covariance = [[235/99, 0], [0, 623/99]], lw_shrinkage = 169/363\<rparr>"
  by (simp add: ledoit_wolf_fit_def ledoit_wolf_shrinkage_def np_T_def np_dot_def upt_2 Let_def
      power2_eq_square)

lemma optimize_frameC:
  "optimize_portfolio_dual_methods minimize_two ledoit_wolf_fit (dropna frameC)
      \<lparr>min_weight = 0, max_weight = 1\<rparr>
     = Inr \<lparr>sample_weights = [3/4, 1/4], lw_weights = [1/2, 1/2], shrinkage_param = 1\<rparr>"
  unfolding optimize_portfolio_dual_methods_def sample_cov_frameC
  by (simp add: dropna_frameC ledoit_wolf_frameC solve_optimization_def minimize_two_def
      objective_def np_dot_def np_dot_mv_def Let_def replicate_2)

lemma optimize_frameD:
  "optimize_portfolio_dual_methods minimize_two ledoit_wolf_fit (dropna frameD)
      \<lparr>min_weight = 0, max_weight = 1\<rparr>
     = Inr \<lparr>sample_weights = [12/13, 1/13], lw_weights = [623/858, 235/858],
            shrinkage_param = 169/363\<rparr>"
  unfolding optimize_portfolio_dual_methods_def sample_cov_frameD
  by (simp add: dropna_frameD ledoit_wolf_frameD solve_optimization_def minimize_two_def
      objective_def np_dot_def np_dot_mv_def Let_def replicate_2)

lemma weights_applied_frameC:
  "weights_applied minimize_two ledoit_wolf_fit frameC \<lparr>min_weight = 0, max_weight = 1\<rparr> 2
     = Some ([3/4, 1/4], [1/2, 1/2])"
  unfolding weights_applied_def demo_returns_def Let_def optimize_frameC
  by (simp add: portfolio_returns_def dropna_frameC)

lemma weights_applied_frameD:
  "weights_applied minimize_two ledoit_wolf_fit frameD \<lparr>min_weight = 0, max_weight = 1\<rparr> 2
     = Some ([12/13, 1/13], [623/858, 235/858])"
  unfolding weights_applied_def demo_returns_def Let_def optimize_frameD
  by (simp add: portfolio_returns_def dropna_frameD)

lemma dates_portfolio_returns:
  "portfolio_returns rd w = Inr sr \<Longrightarrow> map fst sr = map fst (dated_rows rd)"
  by (auto simp: portfolio_returns_def split: if_splits)

text \<open>
  The realized return of a date is the dot product of that date's row with the weight
  vector of the method, one vector for all dates.
\<close>

lemma realized_returns_use_weights:
  assumes "demo_returns minimize ledoit_wolf df cs = Inr run"
  shows "sample_returns run
           = map (\<lambda>(d, row). (d, np_dot row (sample_weights (weights run))))
               (dated_rows (dropna df))"
    and "lw_returns run
           = map (\<lambda>(d, row). (d, np_dot row (lw_weights (weights run))))
               (dated_rows (dropna df))"
  using assms
  by (auto simp: demo_returns_def portfolio_returns_def Let_def split: sum.splits if_splits)

text \<open>
  Claim C1, as stated, fails: the demo optimizes once over the whole cleaned series and
  applies the result at every date. The frames \<open>frameC\<close> and \<open>frameD\<close> agree at all dates
  before date 2 and differ at date 2; with position limits \<open>[0, 1]\<close> the weights applied at
  date 2 are \<open>[3/4, 1/4]\<close> (sample) and \<open>[1/2, 1/2]\<close> (Ledoit-Wolf) for the one and
  \<open>[12/13, 1/13]\<close> and \<open>[623/858, 235/858]\<close> for the other.
\<close>

theorem weights_applied_look_ahead_counterexample:
  "agree_before 2 frameC frameD \<and>
   weights_applied minimize_two ledoit_wolf_fit frameC \<lparr>min_weight = 0, max_weight = 1\<rparr> 2
     = Some ([3/4, 1/4], [1/2, 1/2]) \<and>
   weights_applied minimize_two ledoit_wolf_fit frameD \<lparr>min_weight = 0, max_weight = 1\<rparr> 2
     = Some ([12/13, 1/13], [623/858, 235/858]) \<and>
   weights_applied minimize_two ledoit_wolf_fit frameC \<lparr>min_weight = 0, max_weight = 1\<rparr> 2
     \<noteq> weights_applied minimize_two ledoit_wolf_fit frameD \<lparr>min_weight = 0, max_weight = 1\<rparr> 2"
proof -
  have "agree_before 2 frameC frameD"
    by (simp add: agree_before_def frameC_def frameD_def)
  moreover have "weights_applied minimize_two ledoit_wolf_fit frameC
        \<lparr>min_weight = 0, max_weight = 1\<rparr> 2
      \<noteq> weights_applied minimize_two ledoit_wolf_fit frameD \<lparr>min_weight = 0, max_weight = 1\<rparr> 2"
    unfolding weights_applied_frameC weights_applied_frameD by simp
  ultimately show ?thesis
    using weights_applied_frameC weights_applied_frameD by (intro conjI)
qed

text \<open>
  The difference does not rest on the exactness of the solver: whatever the solver and
  the estimator, sample weights within 0.05 of the two minimisers differ.
\<close>

lemma look_ahead_any_accurate_solver:
  assumes C: "weights_applied minimize ledoit_wolf frameC cs 2 = Some (swC, lwC)"
    and D: "weights_applied minimize ledoit_wolf frameD cs 2 = Some (swD, lwD)"
    and accC: "\<bar>swC ! 0 - 3/4\<bar> \<le> 1/20" and accD: "\<bar>swD ! 0 - 12/13\<bar> \<le> 1/20"
  shows "swC \<noteq> swD"
proof
  assume "swC = swD"
  with accC accD have "\<bar>swC ! 0 - 3/4\<bar> \<le> 1/20" "\<bar>swC ! 0 - 12/13\<bar> \<le> 1/20" by simp_all
  then show False by linarith
qed

text \<open>
  Claim C1, amended. For every return series and constraint set, the weight vectors
  applied to realize the portfolio return at a date \<open>t\<close> are the optimizer's solutions for
  the covariance matrices estimated from all dates of the cleaned series, \<open>t\<close> and later
  dates included; the same vectors are applied at every date of the cleaned series; and
  two return series that agree at all dates after cleaning yield the same weights applied
  at \<open>t\<close>.
\<close>

theorem weights_applied_whole_series:
  assumes "weights_applied minimize ledoit_wolf df cs t = Some (sw, lw)"
  shows "solve_optimization minimize cs (length (columns df)) (sample_cov (dropna df)) = Inr sw \<and>
         (\<exists>fit. ledoit_wolf (map snd (dated_rows (dropna df))) = Inr fit \<and>
            solve_optimization minimize cs (length (columns df)) (Some (lw_covariance fit)) = Inr lw) \<and>
         (\<forall>t' \<in> fst ` set (dated_rows (dropna df)).
            weights_applied minimize ledoit_wolf df cs t' = Some (sw, lw)) \<and>
         (\<forall>df'. dropna df' = dropna df \<longrightarrow>
            weights_applied minimize ledoit_wolf df' cs t = Some (sw, lw))"
proof -
  from assms obtain run where run: "demo_returns minimize ledoit_wolf df cs = Inr run"
    and t: "t \<in> fst ` set (sample_returns run)"
    and sw: "sw = sample_weights (weights run)" and lw: "lw = lw_weights (weights run)"
    by (auto simp: weights_applied_def split: sum.splits if_splits)
  from run obtain results where
    opt: "optimize_portfolio_dual_methods minimize ledoit_wolf (dropna df) cs = Inr results"
    and sr: "portfolio_returns (dropna df) (sample_weights results) = Inr (sample_returns run)"
    and w: "weights run = results"
    by (auto simp: demo_returns_def Let_def split: sum.splits)
  from opt obtain fit where
    fit: "ledoit_wolf (map snd (dated_rows (dropna df))) = Inr fit"
    and s1: "solve_optimization minimize cs (length (tickers (dropna df))) (sample_cov (dropna df))
              = Inr (sample_weights results)"
    and s2: "solve_optimization minimize cs (length (tickers (dropna df))) (Some (lw_covariance fit))
              = Inr (lw_weights results)"
    by (auto simp: optimize_portfolio_dual_methods_def Let_def split: sum.splits)
  have n: "length (tickers (dropna df)) = length (columns df)"
    by (simp add: dropna_def)
  have dates: "fst ` set (sample_returns run) = fst ` set (dated_rows (dropna df))"
    using dates_portfolio_returns [OF sr] by (metis set_map)
  have a: "solve_optimization minimize cs (length (columns df)) (sample_cov (dropna df)) = Inr sw"
    using s1 n sw w by simp
  have b: "\<exists>fit. ledoit_wolf (map snd (dated_rows (dropna df))) = Inr fit \<and>
            solve_optimization minimize cs (length (columns df)) (Some (lw_covariance fit)) = Inr lw"
    using fit s2 n lw w by auto
  have c: "\<forall>t' \<in> fst ` set (dated_rows (dropna df)).
            weights_applied minimize ledoit_wolf df cs t' = Some (sw, lw)"
    using run dates sw lw by (simp add: weights_applied_def)
  have d: "\<forall>df'. dropna df' = dropna df \<longrightarrow>
            weights_applied minimize ledoit_wolf df' cs t = Some (sw, lw)"
    using assms by (simp add: weights_applied_def demo_returns_def)
  from a b c d show ?thesis by blast
qed

theorem weights_applied_whole_series_witness:
  "solve_optimization minimize_two \<lparr>min_weight = 0, max_weight = 1\<rparr> (length (columns frameC))
      (sample_cov (dropna frameC)) = Inr [3/4, 1/4] \<and>
   weights_applied minimize_two ledoit_wolf_fit frameC \<lparr>min_weight = 0, max_weight = 1\<rparr> 0
     = Some ([3/4, 1/4], [1/2, 1/2])"
  using weights_applied_whole_series [OF weights_applied_frameC]
  by (simp add: dropna_frameC)

end
